theory Spec2Isabelle
  imports Main "HOL-Library.Word"
begin

section \<open>Buckets collection of package threaddb (src/core/core.go)\<close>

text \<open>
  Conventions of the embedding.
  \<^item> A Go slice or map is an \<open>option\<close>: \<open>None\<close> is the nil container, \<open>Some\<close> a non-nil
    one. \<open>len\<close> of a nil slice is 0, reading a nil map finds nothing, writing to a nil map
    panics.
  \<^item> \<open>int64\<close> is \<open>64 word\<close>.
  \<^item> A method that mutates its receiver returns the receiver's new value.
  \<^item> A Go call either returns or panics: \<open>outcome\<close>.
  \<^item> Methods of types declared outside this file (\<open>cid.Cid\<close>, \<open>time.Time\<close>,
    \<open>thread.Token\<close>, \<open>thread.PubKey\<close>, the Powergate client, the FFS instances
    collection, \<open>Collection.Save\<close> and \<open>Collection.Create\<close>) are taken as the values
    they return.
\<close>

subsection \<open>Data model\<close>

type_synonym int64 = "64 word"

record Deal =
  ProposalCid :: string
  Miner :: string

record Archive =
  Archive_Cid :: string
  Deals :: "Deal list option"

record Archives =
  Current :: Archive
  History :: "Archive list option"

record ACL =
  Write :: "string list option"
  Read :: "string list option"
  Delete :: "string list option"

record Item =
  Cid :: string
  ACL :: ACL
  CreatedAt :: int64
  UpdatedAt :: int64

record Bucket =
  Key :: string
  Owner :: string
  Name :: string
  Version :: int
  EncKey :: string
  Path :: string
  Items :: "(string \<rightharpoonup> Item) option"
  Archives :: Archives
  Bucket_CreatedAt :: int64
  Bucket_UpdatedAt :: int64

datatype 'a outcome = Returns 'a | Panic string

text \<open>
  Go errors. \<open>ErrNoCurrentArchive\<close> is the sentinel \<open>buckets.ErrNoCurrentArchive\<close>;
  \<open>External s\<close> is an error value made by a call outside this file, \<open>s\<close> its text
  (such a call returns the text, type \<open>ext_error\<close>);
  \<open>Errorf s\<close> is \<open>fmt.Errorf(s)\<close> after formatting of string arguments;
  \<open>Errorf_s s e\<close> is \<open>fmt.Errorf(s + "%s", e)\<close> for an error argument \<open>e\<close>.
\<close>

type_synonym ext_error = string

datatype error =
    ErrNoCurrentArchive
  | External string
  | Errorf string
  | Errorf_s string error

subsection \<open>UpsertItemAtPath\<close>

text \<open>
  \<open>func (b *Bucket) UpsertItemAtPath(pth string, cid cid.Cid, updated time.Time) error\<close>.
  The argument \<open>cid\<close> is the value of \<open>cid.String()\<close>, \<open>nanos\<close> that of
  \<open>updated.UnixNano()\<close>. The result is the bucket after the call and the returned error
  (always nil); the store into a nil \<open>Items\<close> map panics.
\<close>

definition zero_Item :: Item where
  "zero_Item = \<lparr>Cid = [], ACL = \<lparr>Write = None, Read = None, Delete = None\<rparr>,
                CreatedAt = 0, UpdatedAt = 0\<rparr>"

text \<open>\<open>x, ok := b.Items[pth]\<close>: a nil map and a missing key both give the zero Item.\<close>

definition lookup_Items :: "(string \<rightharpoonup> Item) option \<Rightarrow> string \<Rightarrow> Item \<times> bool" where
  "lookup_Items items pth =
     (case items of
        None \<Rightarrow> (zero_Item, False)
      | Some m \<Rightarrow> (case m pth of None \<Rightarrow> (zero_Item, False) | Some x \<Rightarrow> (x, True)))"

text \<open>\<open>b.Items[pth] = x\<close>\<close>

definition store_Items :: "Bucket \<Rightarrow> string \<Rightarrow> Item \<Rightarrow> Bucket outcome" where
  "store_Items b pth x =
     (case Items b of
        None \<Rightarrow> Panic ''assignment to entry in nil map''
      | Some m \<Rightarrow> Returns (b\<lparr>Items := Some (m(pth \<mapsto> x))\<rparr>))"

definition UpsertItemAtPath ::
  "Bucket \<Rightarrow> string \<Rightarrow> string \<Rightarrow> int64 \<Rightarrow> (Bucket \<times> error option) outcome" where
  "UpsertItemAtPath b pth cid nanos =
     (let (x, ok) = lookup_Items (Items b) pth
      in case (if ok \<and> Cid x \<noteq> cid
               then store_Items b pth (x\<lparr>Cid := cid, UpdatedAt := nanos\<rparr>)
               else
                 (let acl = (if Owner b \<noteq> [] then Some [Owner b] else None)
                  in store_Items b pth
                       \<lparr>Cid = cid, ACL = \<lparr>Write = acl, Read = acl, Delete = acl\<rparr>,
                        CreatedAt = nanos, UpdatedAt = nanos\<rparr>))
         of Panic msg \<Rightarrow> Panic msg
          | Returns b' \<Rightarrow> Returns (b', None))"

subsection \<open>ensureNoNulls and SaveSafe\<close>

definition len :: "'a list option \<Rightarrow> nat" where
  "len s = (case s of None \<Rightarrow> 0 | Some xs \<Rightarrow> length xs)"

text \<open>
  The three assignments of the source, in its order. \<open>current\<close> is copied from the
  bucket before the inner \<open>if\<close> stores into \<open>b.Archives.Current\<close>, and the last
  assignment replaces \<open>b.Archives\<close> as a whole.
\<close>

definition ensureNoNulls :: "Bucket \<Rightarrow> Bucket" where
  "ensureNoNulls b =
     (let b1 = (if Items b = None then b\<lparr>Items := Some Map.empty\<rparr> else b)
      in if len (History (Archives b1)) = 0
         then
           (let current = Current (Archives b1);
                b2 = (if len (Deals current) = 0
                      then b1\<lparr>Archives := (Archives b1)
                              \<lparr>Current := \<lparr>Archive_Cid = [], Deals = Some []\<rparr>\<rparr>\<rparr>
                      else b1)
            in b2\<lparr>Archives := \<lparr>Current = current, History = Some []\<rparr>\<rparr>)
         else b1)"

subsection \<open>The write validator of the buckets collection\<close>

text \<open>
  \<open>bucketsConfig.ValidatorFunc\<close> is a JavaScript function body over \<open>event\<close>,
  \<open>author\<close> and \<open>instance\<close>. The values it reads:
  \<^item> \<open>event.patch.type\<close>, \<open>event.patch.json_patch\<close> and \<open>event.patch.owner\<close>;
    a property that is not there reads as \<open>undefined\<close> (\<open>None\<close>);
  \<^item> \<open>json_patch.owner\<close> and \<open>json_patch.items\<close>, an object listed in the order
    \<open>Object.keys\<close> enumerates it, whose values are objects or \<open>null\<close>;
  \<^item> \<open>instance\<close>, the stored bucket as its JSON tags name it: \<open>owner\<close>, \<open>items\<close>,
    \<open>acl\<close>, \<open>$w\<close>. A nil Go map or slice is encoded as \<open>null\<close>.
  Reading a property of \<open>undefined\<close> or \<open>null\<close> throws a TypeError.

  \<open>instance.items[k]\<close> is a property read of a plain object: a name that the object does
  not hold itself is looked up in \<open>Object.prototype\<close>. The script engine is outside this
  file, so the names its \<open>Object.prototype\<close> defines are the parameter \<open>proto\<close> of the
  validator (\<open>ES_Object_prototype\<close> lists those of the ECMAScript standard). Such a member
  is a function or an object, hence truthy, and has no \<open>acl\<close>: reading \<open>x.acl.$w\<close> of it
  throws a TypeError. None of the names the script reads as literals (\<open>type\<close>,
  \<open>json_patch\<close>, \<open>owner\<close>, \<open>items\<close>, \<open>acl\<close>, \<open>$w\<close>) is defined by
  \<open>Object.prototype\<close>.
\<close>

definition ES_Object_prototype :: "string \<Rightarrow> bool" where
  "ES_Object_prototype k =
     (k \<in> set [''constructor'', ''toString'', ''toLocaleString'', ''valueOf'',
               ''hasOwnProperty'', ''isPrototypeOf'', ''propertyIsEnumerable'',
               ''__proto__'', ''__defineGetter__'', ''__defineSetter__'',
               ''__lookupGetter__'', ''__lookupSetter__''])"

record PatchItem =
  p_cid :: "string option"
  p_acl :: "ACL option"
  p_created_at :: "int64 option"
  p_updated_at :: "int64 option"

record Patch =
  p_owner :: "string option"
  p_items :: "(string \<times> PatchItem option) list option"

record Event =
  patch_type :: string
  patch_json_patch :: Patch
  patch_owner :: "string option"

datatype verdict = Accept | Reject string | TypeError

text \<open>The body of the \<open>for\<close> loop of case "save"; \<open>None\<close>: no \<open>return\<close> was reached.\<close>

definition save_item ::
  "(string \<Rightarrow> bool) \<Rightarrow> string \<Rightarrow> Bucket option \<Rightarrow> string \<Rightarrow> PatchItem option \<Rightarrow>
   verdict option" where
  "save_item proto author instance k p =
     (case p of
        None \<Rightarrow> Some TypeError
      | Some pi \<Rightarrow>
          (case instance of
             None \<Rightarrow> Some TypeError
           | Some inst \<Rightarrow>
               if p_acl pi \<noteq> None \<and> author \<noteq> Owner inst
               then Some (Reject ''only owner can modify bucket access rules'')
               else
                 (case Items inst of
                    None \<Rightarrow> Some TypeError
                  | Some m \<Rightarrow>
                      (case m k of
                         Some x \<Rightarrow>
                           (case Write (ACL x) of
                              None \<Rightarrow> Some TypeError
                            | Some w \<Rightarrow>
                                if author \<notin> set w
                                then Some (Reject ''author does not have write access'')
                                else None)
                       | None \<Rightarrow>
                           if proto k
                           then Some TypeError
                           else if author \<noteq> Owner inst
                           then Some (Reject ''only owner can create new bucket items'')
                           else None))))"

fun save_loop ::
  "(string \<Rightarrow> bool) \<Rightarrow> string \<Rightarrow> Bucket option \<Rightarrow> (string \<times> PatchItem option) list \<Rightarrow>
   verdict option" where
  "save_loop proto author instance [] = None"
| "save_loop proto author instance ((k, p) # kvs) =
     (case save_item proto author instance k p of
        Some v \<Rightarrow> Some v
      | None \<Rightarrow> save_loop proto author instance kvs)"

definition ValidatorFunc ::
  "(string \<Rightarrow> bool) \<Rightarrow> Event \<Rightarrow> string \<Rightarrow> Bucket option \<Rightarrow> verdict" where
  "ValidatorFunc proto event author instance =
     (let type = patch_type event; patch = patch_json_patch event
      in case (if type = ''create''
               then (if p_owner patch \<noteq> Some author
                     then Some (Reject ''author must match new bucket owner'')
                     else None)
               else if type = ''save''
               then (case p_items patch of
                       None \<Rightarrow> Some TypeError
                     | Some kvs \<Rightarrow> save_loop proto author instance kvs)
               else if type = ''delete''
               then (if patch_owner event \<noteq> Some author
                     then Some (Reject ''author must match new bucket owner'')
                     else None)
               else None)
         of Some v \<Rightarrow> v
          | None \<Rightarrow> Accept)"

subsection \<open>The buckets manager and the services it calls\<close>

text \<open>
  \<open>thread.Token\<close> is declared outside this file: a token is the results of its methods
  \<open>Defined()\<close> and \<open>PubKey()\<close>, the latter an error or a key (nil, or the key's
  \<open>String()\<close>).
\<close>

record Token =
  Defined :: bool
  PubKey :: "ext_error + string option"

record BucketOptions =
  opt_Name :: string
  opt_Key :: "8 word list option"
  opt_Token :: Token

definition zero_BucketOptions :: BucketOptions where
  "zero_BucketOptions =
     \<lparr>opt_Name = [], opt_Key = None, opt_Token = \<lparr>Defined = False, PubKey = Inr None\<rparr>\<rparr>"

definition WithNewBucketName :: "string \<Rightarrow> BucketOptions \<Rightarrow> BucketOptions" where
  "WithNewBucketName n args = args\<lparr>opt_Name := n\<rparr>"

definition WithNewBucketKey :: "8 word list option \<Rightarrow> BucketOptions \<Rightarrow> BucketOptions" where
  "WithNewBucketKey k args = args\<lparr>opt_Key := k\<rparr>"

definition WithNewBucketToken :: "Token \<Rightarrow> BucketOptions \<Rightarrow> BucketOptions" where
  "WithNewBucketToken t args = args\<lparr>opt_Token := t\<rparr>"

text \<open>The fields of \<open>ffs.DefaultConfig\<close> that this file names.\<close>

record IpfsConfig =
  AddTimeout :: int

record HotConfig =
  Hot_Enabled :: bool
  AllowUnfreeze :: bool
  Ipfs :: IpfsConfig

record FilConfig =
  RepFactor :: int
  DealMinDuration :: int64
  Fil_Addr :: string

record ColdConfig =
  Cold_Enabled :: bool
  Filecoin :: FilConfig

record DefaultConfig =
  Hot :: HotConfig
  Cold :: ColdConfig
  Repairable :: bool

definition ffsDefaultCidConfig :: DefaultConfig where
  "ffsDefaultCidConfig =
     \<lparr>Hot = \<lparr>Hot_Enabled = False, AllowUnfreeze = True, Ipfs = \<lparr>AddTimeout = 60 * 2\<rparr>\<rparr>,
      Cold = \<lparr>Cold_Enabled = True,
              Filecoin = \<lparr>RepFactor = 10, DealMinDuration = 200000, Fil_Addr = []\<rparr>\<rparr>,
      Repairable = False\<rparr>"

text \<open>The reply of \<open>FFS.Info\<close>, as far as this file reads it.\<close>

record BalanceInfo =
  Addr :: string

record InstanceInfo =
  Balances :: "BalanceInfo list option"

text \<open>
  The Powergate client: \<open>FFS.Create\<close> gives an error or an instance id and a token,
  \<open>FFS.Info\<close> and \<open>FFS.SetDefaultConfig\<close> are called with the token put into the
  context.
\<close>

record PowClient =
  FFS_Create :: "ext_error + string \<times> string"
  FFS_Info :: "string \<Rightarrow> ext_error + InstanceInfo"
  FFS_SetDefaultConfig :: "string \<Rightarrow> DefaultConfig \<Rightarrow> ext_error option"

text \<open>The record of \<open>mdb.FFSInstances\<close>, as far as this file reads it.\<close>

record FFSArchive =
  JobID :: string
  JobStatus :: int
  FailureMsg :: string
  Aborted :: bool
  AbortedMsg :: string

record FFSArchives =
  FFS_Current :: FFSArchive

record FFSInstance =
  FFSToken :: string
  FFS_Archives :: FFSArchives

text \<open>
  \<open>Buckets\<close>: the embedded collection's \<open>Create\<close> and \<open>Save\<close>, the FFS instances
  collection's \<open>Create\<close> and \<open>Get\<close>, the Powergate client (nil when archiving is
  not configured) and the default configuration. The mutex, the context and the wait
  group are not part of the model.
\<close>

record Buckets =
  Collection_Create :: "Bucket \<Rightarrow> Token \<Rightarrow> ext_error + string"
  Collection_Save :: "Bucket \<Rightarrow> ext_error option"
  ffsCol_Create :: "string \<Rightarrow> string \<Rightarrow> string \<Rightarrow> ext_error option"
  ffsCol_Get :: "string \<Rightarrow> ext_error + FFSInstance"
  pgClient :: "PowClient option"
  buckCidConfig :: DefaultConfig

definition IsArchivingEnabled :: "Buckets \<Rightarrow> bool" where
  "IsArchivingEnabled b = (pgClient b \<noteq> None)"

text \<open>\<open>s[0]\<close> on a slice: out of range when the slice is nil or empty.\<close>

definition index0 :: "'a list option \<Rightarrow> 'a outcome" where
  "index0 s =
     (case s of
        None \<Rightarrow> Panic ''index out of range [0] with length 0''
      | Some [] \<Rightarrow> Panic ''index out of range [0] with length 0''
      | Some (x # xs) \<Rightarrow> Returns x)"

definition createFFSInstance :: "Buckets \<Rightarrow> string \<Rightarrow> error option outcome" where
  "createFFSInstance b bucketKey =
     (case pgClient b of
        None \<Rightarrow> Returns None
      | Some pg \<Rightarrow>
          (case FFS_Create pg of
             Inl err \<Rightarrow> Returns (Some (Errorf_s ''creating FFS instance: '' (External err)))
           | Inr (_, token) \<Rightarrow>
               (case FFS_Info pg token of
                  Inl err \<Rightarrow>
                    Returns (Some (Errorf_s
                      ''getting information about created ffs instance: '' (External err)))
                | Inr i \<Rightarrow>
                    (case index0 (Balances i) of
                       Panic msg \<Rightarrow> Panic msg
                     | Returns bal \<Rightarrow>
                         (let waddr = Addr bal
                          in case ffsCol_Create b bucketKey token waddr of
                               Some err \<Rightarrow>
                                 Returns (Some (Errorf_s ''saving FFS instances data: '' (External err)))
                             | None \<Rightarrow>
                                 (let c = buckCidConfig b;
                                      defaultBucketCidConfig =
                                        \<lparr>Hot = Hot c,
                                         Cold = (Cold c)
                                           \<lparr>Filecoin := (Filecoin (Cold c))\<lparr>Fil_Addr := waddr\<rparr>\<rparr>,
                                         Repairable = Repairable c\<rparr>
                                  in case FFS_SetDefaultConfig pg token defaultBucketCidConfig of
                                       Some err \<Rightarrow>
                                         Returns (Some (Errorf_s
                                           ''setting default bucket FFS cidconfig: '' (External err)))
                                     | None \<Rightarrow> Returns None))))))"

text \<open>
  \<open>New\<close>. \<open>pth\<close> is the value of \<open>pth.String()\<close>; \<open>owner\<close> is nil or the value of
  \<open>owner.String()\<close>, and calling \<open>String\<close> on the nil interface panics;
  \<open>EncodeToString\<close> is \<open>base64.StdEncoding.EncodeToString\<close> and \<open>now\<close> the value of
  \<open>time.Now().UnixNano()\<close>. \<open>Version\<close> is the constant 1.
\<close>

definition Version_const :: int where
  "Version_const = 1"

definition New ::
  "Buckets \<Rightarrow> (8 word list \<Rightarrow> string) \<Rightarrow> int64 \<Rightarrow> string \<Rightarrow> string \<Rightarrow> string option \<Rightarrow>
   (BucketOptions \<Rightarrow> BucketOptions) list \<Rightarrow> (error + Bucket) outcome" where
  "New b EncodeToString now key pth owner opts =
     (let args = foldl (\<lambda>a opt. opt a) zero_BucketOptions opts;
          encKey = (case opt_Key args of None \<Rightarrow> [] | Some k \<Rightarrow> EncodeToString k);
          checked =
            (if Defined (opt_Token args)
             then (case PubKey (opt_Token args) of
                     Inl err \<Rightarrow> Returns (Some (External err))
                   | Inr None \<Rightarrow> Returns None
                   | Inr (Some tokenOwner) \<Rightarrow>
                       (case owner of
                          None \<Rightarrow> Panic ''invalid memory address or nil pointer dereference''
                        | Some ow \<Rightarrow>
                            if ow \<noteq> tokenOwner
                            then Returns (Some (Errorf ''creating bucket: token owner mismatch''))
                            else Returns None))
             else Returns None)
      in case checked of
           Panic msg \<Rightarrow> Panic msg
         | Returns (Some err) \<Rightarrow> Returns (Inl err)
         | Returns None \<Rightarrow>
             (let bucket =
                    \<lparr>Key = key, Owner = [], Name = opt_Name args, Version = Version_const,
                     EncKey = encKey, Path = pth, Items = Some Map.empty,
                     Archives = \<lparr>Current = \<lparr>Archive_Cid = [], Deals = Some []\<rparr>,
                                 History = Some []\<rparr>,
                     Bucket_CreatedAt = now, Bucket_UpdatedAt = now\<rparr>;
                  bucket = (case owner of None \<Rightarrow> bucket | Some ow \<Rightarrow> bucket\<lparr>Owner := ow\<rparr>)
              in case Collection_Create b bucket (opt_Token args) of
                   Inl err \<Rightarrow> Returns (Inl (Errorf_s ''creating bucket in thread: '' (External err)))
                 | Inr newid \<Rightarrow>
                     (let bucket = bucket\<lparr>Key := newid\<rparr>
                      in case createFFSInstance b key of
                           Panic msg \<Rightarrow> Panic msg
                         | Returns (Some err) \<Rightarrow>
                             Returns (Inl (Errorf_s ''creating FFS instance for bucket: '' err))
                         | Returns None \<Rightarrow> Returns (Inr bucket))))"

text \<open>
  \<open>SaveSafe\<close>: the result is the bucket behind the pointer after the call and the error
  that \<open>Save\<close> returns for it.
\<close>

definition SaveSafe :: "Buckets \<Rightarrow> Bucket \<Rightarrow> Bucket \<times> error option" where
  "SaveSafe b bucket =
     (let bucket' = ensureNoNulls bucket
      in (bucket', map_option External (Collection_Save b bucket')))"

text \<open>
  \<open>ArchiveStatus\<close>. \<open>ffs_Failed\<close> is the constant \<open>ffs.Failed\<close> of the job status
  enumeration, declared outside this file.
\<close>

definition ArchiveStatus :: "int \<Rightarrow> Buckets \<Rightarrow> string \<Rightarrow> int \<times> string \<times> error option" where
  "ArchiveStatus ffs_Failed b key =
     (case ffsCol_Get b key of
        Inl err \<Rightarrow> (ffs_Failed, [], Some (Errorf_s ''getting ffs instance data: '' (External err)))
      | Inr ffsi \<Rightarrow>
          if JobID (FFS_Current (FFS_Archives ffsi)) = []
          then (ffs_Failed, [], Some ErrNoCurrentArchive)
          else
            (let current = FFS_Current (FFS_Archives ffsi)
             in if Aborted current
                then (ffs_Failed, [],
                      Some (Errorf (''job status tracking was aborted: '' @ AbortedMsg current)))
                else (JobStatus current, FailureMsg current, None)))"

subsection \<open>Vocabulary of the properties\<close>

text \<open>The elements of a slice: a nil slice has none.\<close>

definition elems :: "'a list option \<Rightarrow> 'a list" where
  "elems s = (case s of None \<Rightarrow> [] | Some xs \<Rightarrow> xs)"

text \<open>
  For a path \<open>k\<close> of a save patch and the current instance: the path exists in the
  instance's items; the Write set of the item there; the patch entry carries an ACL
  (\<open>p.acl\<close> is truthy).
\<close>

definition exists_item :: "Bucket \<Rightarrow> string \<Rightarrow> bool" where
  "exists_item inst k = snd (lookup_Items (Items inst) k)"

definition Write_set :: "Bucket \<Rightarrow> string \<Rightarrow> string set" where
  "Write_set inst k = set (elems (Write (ACL (fst (lookup_Items (Items inst) k)))))"

definition has_acl :: "PatchItem option \<Rightarrow> bool" where
  "has_acl p = (case p of None \<Rightarrow> False | Some pi \<Rightarrow> p_acl pi \<noteq> None)"

text \<open>
  The values of a save patch that the validator reads without a TypeError: the instance
  has an items object, no entry of the patch is \<open>null\<close>, the Write list of an item
  that exists is not \<open>null\<close>, and a path that the instance does not hold is not a
  name of \<open>Object.prototype\<close>.
\<close>

definition readable ::
  "(string \<Rightarrow> bool) \<Rightarrow> Bucket \<Rightarrow> (string \<times> PatchItem option) list \<Rightarrow> bool" where
  "readable proto inst kvs =
     (Items inst \<noteq> None \<and>
      list_all (\<lambda>(k, p). p \<noteq> None \<and>
         (if exists_item inst k
          then Write (ACL (fst (lookup_Items (Items inst) k))) \<noteq> None
          else \<not> proto k)) kvs)"

text \<open>
  The rule of the save branch for one path of the patch, stated apart from the loop: the
  ACL test comes first; an existing path needs the author in its Write set, a new path
  needs the owner.
\<close>

definition path_verdict :: "string \<Rightarrow> Bucket \<Rightarrow> string \<Rightarrow> PatchItem option \<Rightarrow> verdict" where
  "path_verdict author inst k p =
     (if has_acl p \<and> author \<noteq> Owner inst
      then Reject ''only owner can modify bucket access rules''
      else if exists_item inst k
      then (if author \<in> Write_set inst k then Accept
            else Reject ''author does not have write access'')
      else (if author = Owner inst then Accept
            else Reject ''only owner can create new bucket items''))"

subsection \<open>Example values\<close>

definition ex_item :: Item where
  "ex_item =
     \<lparr>Cid = ''c0'',
      ACL = \<lparr>Write = Some [''O'', ''N''], Read = Some [''O''], Delete = Some [''O'']\<rparr>,
      CreatedAt = 1, UpdatedAt = 1\<rparr>"

definition ex_bucket :: Bucket where
  "ex_bucket =
     \<lparr>Key = ''k'', Owner = ''O'', Name = ''n'', Version = 1, EncKey = [], Path = ''/ipfs/r'',
      Items = Some [''p'' \<mapsto> ex_item],
      Archives = \<lparr>Current = \<lparr>Archive_Cid = [], Deals = Some []\<rparr>, History = Some []\<rparr>,
      Bucket_CreatedAt = 1, Bucket_UpdatedAt = 1\<rparr>"

text \<open>The owner has handed the write access of \<open>p\<close> to \<open>N\<close> alone.\<close>

definition ex_shared_bucket :: Bucket where
  "ex_shared_bucket =
     ex_bucket\<lparr>Items := Some [''p'' \<mapsto> ex_item\<lparr>ACL :=
       \<lparr>Write = Some [''N''], Read = Some [''O''], Delete = Some [''O'']\<rparr>\<rparr>]\<rparr>"

definition ex_nil_bucket :: Bucket where
  "ex_nil_bucket =
     \<lparr>Key = ''k'', Owner = ''O'', Name = ''n'', Version = 1, EncKey = [], Path = ''/ipfs/r'',
      Items = None,
      Archives = \<lparr>Current = \<lparr>Archive_Cid = ''a'', Deals = None\<rparr>, History = None\<rparr>,
      Bucket_CreatedAt = 1, Bucket_UpdatedAt = 2\<rparr>"

definition ex_archived_bucket :: Bucket where
  "ex_archived_bucket =
     \<lparr>Key = ''k'', Owner = ''O'', Name = ''n'', Version = 1, EncKey = [], Path = ''/ipfs/r'',
      Items = None,
      Archives = \<lparr>Current = \<lparr>Archive_Cid = ''a'', Deals = Some []\<rparr>,
                  History = Some [\<lparr>Archive_Cid = ''h'',
                                  Deals = Some [\<lparr>ProposalCid = ''pc'', Miner = ''m''\<rparr>]\<rparr>]\<rparr>,
      Bucket_CreatedAt = 1, Bucket_UpdatedAt = 2\<rparr>"

definition ex_history_bucket :: Bucket where
  "ex_history_bucket =
     \<lparr>Key = ''k'', Owner = ''O'', Name = ''n'', Version = 1, EncKey = [], Path = ''/ipfs/r'',
      Items = Some Map.empty,
      Archives = \<lparr>Current = \<lparr>Archive_Cid = ''a'', Deals = None\<rparr>,
                  History = Some [\<lparr>Archive_Cid = ''h'', Deals = None\<rparr>]\<rparr>,
      Bucket_CreatedAt = 1, Bucket_UpdatedAt = 2\<rparr>"

definition ex_create :: Event where
  "ex_create =
     \<lparr>patch_type = ''create'',
      patch_json_patch = \<lparr>p_owner = Some ''O'', p_items = Some []\<rparr>,
      patch_owner = None\<rparr>"

definition ex_delete :: Event where
  "ex_delete =
     \<lparr>patch_type = ''delete'',
      patch_json_patch = \<lparr>p_owner = None, p_items = None\<rparr>,
      patch_owner = None\<rparr>"

definition ex_cid_entry :: "PatchItem option" where
  "ex_cid_entry =
     Some \<lparr>p_cid = Some ''c1'', p_acl = None, p_created_at = None, p_updated_at = Some 5\<rparr>"

definition ex_acl_entry :: "PatchItem option" where
  "ex_acl_entry =
     Some \<lparr>p_cid = None,
           p_acl = Some \<lparr>Write = Some [''O'', ''M''], Read = None, Delete = None\<rparr>,
           p_created_at = None, p_updated_at = Some 5\<rparr>"

definition ex_save_cid :: Event where
  "ex_save_cid =
     \<lparr>patch_type = ''save'',
      patch_json_patch = \<lparr>p_owner = None, p_items = Some [(''p'', ex_cid_entry)]\<rparr>,
      patch_owner = None\<rparr>"

definition ex_save_ctor :: Event where
  "ex_save_ctor =
     \<lparr>patch_type = ''save'',
      patch_json_patch = \<lparr>p_owner = None, p_items = Some [(''constructor'', ex_cid_entry)]\<rparr>,
      patch_owner = None\<rparr>"

definition ex_save_acl :: Event where
  "ex_save_acl =
     \<lparr>patch_type = ''save'',
      patch_json_patch = \<lparr>p_owner = None, p_items = Some [(''p'', ex_acl_entry)]\<rparr>,
      patch_owner = None\<rparr>"

definition ex_no_job :: FFSInstance where
  "ex_no_job =
     \<lparr>FFSToken = ''t'', FFS_Archives = \<lparr>FFS_Current =
        \<lparr>JobID = [], JobStatus = 0, FailureMsg = [], Aborted = True,
         AbortedMsg = ''stop''\<rparr>\<rparr>\<rparr>"

definition ex_job :: FFSInstance where
  "ex_job =
     \<lparr>FFSToken = ''t'', FFS_Archives = \<lparr>FFS_Current =
        \<lparr>JobID = ''j1'', JobStatus = 5, FailureMsg = [], Aborted = False,
         AbortedMsg = []\<rparr>\<rparr>\<rparr>"

definition ex_PowClient :: PowClient where
  "ex_PowClient =
     \<lparr>FFS_Create = Inr (''i1'', ''t''),
      FFS_Info = (\<lambda>token. Inr \<lparr>Balances = Some []\<rparr>),
      FFS_SetDefaultConfig = (\<lambda>token c. None)\<rparr>"

definition ex_Buckets :: Buckets where
  "ex_Buckets =
     \<lparr>Collection_Create = (\<lambda>bucket token. Inr ''id1''),
      Collection_Save = (\<lambda>bucket. None),
      ffsCol_Create = (\<lambda>key token waddr. None),
      ffsCol_Get = (\<lambda>key. if key = ''k'' then Inr ex_no_job
                           else if key = ''k2'' then Inr ex_job
                           else Inl ''not found''),
      pgClient = Some ex_PowClient,
      buckCidConfig = ffsDefaultCidConfig\<rparr>"

definition ex_plain_Buckets :: Buckets where
  "ex_plain_Buckets = ex_Buckets\<lparr>pgClient := None\<rparr>"

definition ex_unreadable_Token :: Token where
  "ex_unreadable_Token = \<lparr>Defined = True, PubKey = Inl ''bad token''\<rparr>"

definition ex_no_subject_Token :: Token where
  "ex_no_subject_Token = \<lparr>Defined = True, PubKey = Inr None\<rparr>"

definition ex_Token :: Token where
  "ex_Token = \<lparr>Defined = True, PubKey = Inr (Some ''O'')\<rparr>"

definition ex_EncodeToString :: "8 word list \<Rightarrow> string" where
  "ex_EncodeToString k = ''a2V5''"

section \<open>Properties\<close>

subsection \<open>UpsertItemAtPath\<close>

text \<open>
  Claim C6. For every bucket that holds an item at a path, \<open>UpsertItemAtPath\<close> at that
  path with a content address other than the item's returns without error and changes the
  bucket in one place only: the item at the path gets the new \<open>Cid\<close> and the new
  \<open>UpdatedAt\<close>. Its \<open>CreatedAt\<close> and \<open>ACL\<close>, every other item and every other field
  of the bucket are as before.
\<close>

theorem UpsertItemAtPath_update:
  assumes "Items b = Some m" and "m pth = Some x" and "Cid x \<noteq> cid"
  shows "UpsertItemAtPath b pth cid nanos
           = Returns (b\<lparr>Items := Some (m(pth \<mapsto> x\<lparr>Cid := cid, UpdatedAt := nanos\<rparr>))\<rparr>, None)"
  using assms by (simp add: UpsertItemAtPath_def lookup_Items_def store_Items_def)

theorem UpsertItemAtPath_update_witness:
  "Items ex_bucket = Some [''p'' \<mapsto> ex_item] \<and> [''p'' \<mapsto> ex_item] ''p'' = Some ex_item
   \<and> Cid ex_item \<noteq> ''c1''
   \<and> UpsertItemAtPath ex_bucket ''p'' ''c1'' 5
       = Returns (ex_bucket\<lparr>Items := Some [''p'' \<mapsto> ex_item\<lparr>Cid := ''c1'', UpdatedAt := 5\<rparr>]\<rparr>, None)"
proof -
  have h1: "Items ex_bucket = Some [''p'' \<mapsto> ex_item]" by (simp add: ex_bucket_def)
  have h2: "[''p'' \<mapsto> ex_item] ''p'' = Some ex_item" by simp
  have h3: "Cid ex_item \<noteq> ''c1''" by (simp add: ex_item_def)
  have "UpsertItemAtPath ex_bucket ''p'' ''c1'' 5
          = Returns (ex_bucket\<lparr>Items := Some [''p'' \<mapsto> ex_item\<lparr>Cid := ''c1'', UpdatedAt := 5\<rparr>]\<rparr>, None)"
    using UpsertItemAtPath_update [of ex_bucket "[''p'' \<mapsto> ex_item]" "''p''" ex_item "''c1''" 5]
      h1 h3 by simp
  with h1 h2 h3 show ?thesis by blast
qed

text \<open>
  Claim C2 (a second call with the same content address changes nothing) does not hold of
  the code: the branch that keeps an item is taken only when the content address differs,
  so an item that exists with the same address falls into the branch for a new item.
  On the example bucket, whose item at \<open>p\<close> was created at 1 and is writable by \<open>O\<close>
  and \<open>N\<close>: the first call (address \<open>c1\<close>, time 5) keeps \<open>CreatedAt = 1\<close> and the ACL
  and sets \<open>UpdatedAt = 5\<close>; the second call (same address, time 9) stores an item with
  \<open>CreatedAt = 9\<close>, \<open>UpdatedAt = 9\<close> and the owner alone in the ACL.
\<close>

theorem UpsertItemAtPath_same_cid_resets:
  "UpsertItemAtPath ex_bucket ''p'' ''c1'' 5
     = Returns (ex_bucket\<lparr>Items := Some [''p'' \<mapsto>
          \<lparr>Cid = ''c1'',
           ACL = \<lparr>Write = Some [''O'', ''N''], Read = Some [''O''], Delete = Some [''O'']\<rparr>,
           CreatedAt = 1, UpdatedAt = 5\<rparr>]\<rparr>, None)
   \<and> UpsertItemAtPath
         (ex_bucket\<lparr>Items := Some [''p'' \<mapsto>
          \<lparr>Cid = ''c1'',
           ACL = \<lparr>Write = Some [''O'', ''N''], Read = Some [''O''], Delete = Some [''O'']\<rparr>,
           CreatedAt = 1, UpdatedAt = 5\<rparr>]\<rparr>)
         ''p'' ''c1'' 9
     = Returns (ex_bucket\<lparr>Items := Some [''p'' \<mapsto>
          \<lparr>Cid = ''c1'',
           ACL = \<lparr>Write = Some [''O''], Read = Some [''O''], Delete = Some [''O'']\<rparr>,
           CreatedAt = 9, UpdatedAt = 9\<rparr>]\<rparr>, None)"
  by (simp add: UpsertItemAtPath_def lookup_Items_def store_Items_def ex_bucket_def
      ex_item_def Let_def)

text \<open>The same for any bucket: an item that has the address already is replaced by a new one.\<close>

lemma UpsertItemAtPath_same_cid:
  assumes "Items b = Some m" and "m pth = Some x" and "Cid x = cid"
  shows "UpsertItemAtPath b pth cid nanos
           = Returns (b\<lparr>Items := Some (m(pth \<mapsto>
               \<lparr>Cid = cid,
                ACL = (let acl = (if Owner b \<noteq> [] then Some [Owner b] else None)
                       in \<lparr>Write = acl, Read = acl, Delete = acl\<rparr>),
                CreatedAt = nanos, UpdatedAt = nanos\<rparr>))\<rparr>, None)"
  using assms by (simp add: UpsertItemAtPath_def lookup_Items_def store_Items_def Let_def)

lemma UpsertItemAtPath_nil_Items:
  "Items b = None \<Longrightarrow> UpsertItemAtPath b pth cid nanos = Panic ''assignment to entry in nil map''"
  by (simp add: UpsertItemAtPath_def lookup_Items_def store_Items_def Let_def)

subsection \<open>Normalization\<close>

lemma ensureNoNulls_eq:
  "ensureNoNulls b =
     b\<lparr>Items := Some (case Items b of None \<Rightarrow> Map.empty | Some m \<Rightarrow> m),
       Archives := (Archives b)\<lparr>History := Some (elems (History (Archives b)))\<rparr>\<rparr>"
  by (cases "Items b"; cases "History (Archives b)")
     (auto simp: ensureNoNulls_def len_def elems_def Let_def split: option.splits)

text \<open>
  Claim C4. \<open>ensureNoNulls\<close> is a total function of the record (no step of it can
  panic). For every bucket with nil \<open>Items\<close> or nil \<open>Archives.History\<close>, the normalized
  record is the input with \<open>Items\<close> set to the empty map when it was nil and
  \<open>Archives.History\<close> set to the empty sequence when it was nil; every other field,
  \<open>Archives.Current\<close> among them, is unchanged. Normalizing the result again gives the
  same record.
\<close>

theorem ensureNoNulls_idempotent_frame:
  assumes "Items b = None \<or> History (Archives b) = None"
  shows "ensureNoNulls b =
           b\<lparr>Items := Some (case Items b of None \<Rightarrow> Map.empty | Some m \<Rightarrow> m),
             Archives := (Archives b)\<lparr>History := Some (elems (History (Archives b)))\<rparr>\<rparr>
         \<and> ensureNoNulls (ensureNoNulls b) = ensureNoNulls b"
  by (simp add: ensureNoNulls_eq elems_def)

theorem ensureNoNulls_idempotent_frame_witness:
  "(Items ex_nil_bucket = None \<or> History (Archives ex_nil_bucket) = None)
   \<and> ensureNoNulls ex_nil_bucket =
       ex_nil_bucket\<lparr>Items := Some Map.empty,
         Archives := \<lparr>Current = \<lparr>Archive_Cid = ''a'', Deals = None\<rparr>, History = Some []\<rparr>\<rparr>
   \<and> ensureNoNulls (ensureNoNulls ex_nil_bucket) = ensureNoNulls ex_nil_bucket"
proof -
  have h: "Items ex_nil_bucket = None \<or> History (Archives ex_nil_bucket) = None"
    by (simp add: ex_nil_bucket_def)
  have e: "ex_nil_bucket
             \<lparr>Items := Some (case Items ex_nil_bucket of None \<Rightarrow> Map.empty | Some m \<Rightarrow> m),
              Archives := (Archives ex_nil_bucket)
                \<lparr>History := Some (elems (History (Archives ex_nil_bucket)))\<rparr>\<rparr>
           = ex_nil_bucket\<lparr>Items := Some Map.empty,
               Archives := \<lparr>Current = \<lparr>Archive_Cid = ''a'', Deals = None\<rparr>,
                            History = Some []\<rparr>\<rparr>"
    by (simp add: ex_nil_bucket_def elems_def)
  show ?thesis using ensureNoNulls_idempotent_frame [OF h, unfolded e] h by blast
qed

text \<open>
  Claim C3 says that after the normalization of \<open>SaveSafe\<close> the current archive and
  every archive of the history have non-nil \<open>Deals\<close>. \<open>ensureNoNulls\<close> never visits the
  entries of the history, and touches \<open>Archives\<close> only when the history is empty: a bucket
  with a history entry and nil \<open>Deals\<close> goes to \<open>Save\<close> as it came.
\<close>

theorem SaveSafe_Deals_counterexample:
  "Deals (Current (Archives (fst (SaveSafe ex_Buckets ex_history_bucket)))) = None
   \<and> map Deals (elems (History (Archives (fst (SaveSafe ex_Buckets ex_history_bucket))))) = [None]"
  by (simp add: SaveSafe_def ensureNoNulls_def len_def elems_def ex_history_bucket_def Let_def)

text \<open>
  Claim C3, amended. For every bucket record passed through \<open>SaveSafe\<close>, the normalized
  record is the one submitted to \<open>Save\<close>, and in it \<open>Items\<close> and \<open>Archives.History\<close> are
  non-nil. The entries of the history are those of the record passed in, so each of them
  has non-nil \<open>Deals\<close> exactly when it had before; \<open>Archives.Current\<close> has non-nil
  \<open>Deals\<close> when it had before; and when the history is not empty, \<open>Archives\<close> is not
  changed at all.
\<close>

theorem SaveSafe_Deals_preserved:
  "Items (fst (SaveSafe bs b)) \<noteq> None
   \<and> History (Archives (fst (SaveSafe bs b))) \<noteq> None
   \<and> snd (SaveSafe bs b) = map_option External (Collection_Save bs (fst (SaveSafe bs b)))
   \<and> elems (History (Archives (fst (SaveSafe bs b)))) = elems (History (Archives b))
   \<and> (Deals (Current (Archives b)) \<noteq> None \<longrightarrow>
        Deals (Current (Archives (fst (SaveSafe bs b)))) \<noteq> None)
   \<and> (elems (History (Archives b)) \<noteq> [] \<longrightarrow>
        Archives (fst (SaveSafe bs b)) = Archives b)"
  by (cases "History (Archives b)")
     (simp_all add: SaveSafe_def ensureNoNulls_eq elems_def Let_def)

theorem SaveSafe_Deals_preserved_witness:
  "Deals (Current (Archives ex_archived_bucket)) \<noteq> None
   \<and> elems (History (Archives ex_archived_bucket)) \<noteq> []
   \<and> Items (fst (SaveSafe ex_Buckets ex_archived_bucket)) = Some Map.empty
   \<and> History (Archives (fst (SaveSafe ex_Buckets ex_archived_bucket))) \<noteq> None
   \<and> snd (SaveSafe ex_Buckets ex_archived_bucket) = None
   \<and> Deals (Current (Archives (fst (SaveSafe ex_Buckets ex_archived_bucket)))) \<noteq> None
   \<and> Archives (fst (SaveSafe ex_Buckets ex_archived_bucket)) = Archives ex_archived_bucket
   \<and> list_all (\<lambda>a. Deals a \<noteq> None)
        (elems (History (Archives (fst (SaveSafe ex_Buckets ex_archived_bucket)))))"
proof -
  have h1: "Deals (Current (Archives ex_archived_bucket)) \<noteq> None"
    by (simp add: ex_archived_bucket_def)
  have h2: "elems (History (Archives ex_archived_bucket)) \<noteq> []"
    by (simp add: ex_archived_bucket_def elems_def)
  have h3: "list_all (\<lambda>a. Deals a \<noteq> None) (elems (History (Archives ex_archived_bucket)))"
    by (simp add: ex_archived_bucket_def elems_def)
  have s: "Collection_Save ex_Buckets (fst (SaveSafe ex_Buckets ex_archived_bucket)) = None"
    by (simp add: ex_Buckets_def)
  have i: "Items (fst (SaveSafe ex_Buckets ex_archived_bucket)) = Some Map.empty"
    by (simp add: SaveSafe_def ensureNoNulls_eq ex_archived_bucket_def Let_def)
  note t = SaveSafe_Deals_preserved [of ex_Buckets ex_archived_bucket]
  from t h1 have c: "Deals (Current (Archives (fst (SaveSafe ex_Buckets ex_archived_bucket)))) \<noteq> None"
    by blast
  from t h2 have a: "Archives (fst (SaveSafe ex_Buckets ex_archived_bucket))
                       = Archives ex_archived_bucket"
    by blast
  from t have hn: "History (Archives (fst (SaveSafe ex_Buckets ex_archived_bucket))) \<noteq> None"
    by blast
  from t s have sv: "snd (SaveSafe ex_Buckets ex_archived_bucket) = None" by simp
  from a h3 have l: "list_all (\<lambda>a. Deals a \<noteq> None)
        (elems (History (Archives (fst (SaveSafe ex_Buckets ex_archived_bucket)))))"
    by simp
  from h1 h2 i hn sv c a l show ?thesis by blast
qed

subsection \<open>The write validator\<close>

text \<open>
  Claim C8. For every create patch the validator accepts iff the \<open>owner\<close> of the patch
  is the author, and otherwise rejects with "author must match new bucket owner". This
  holds whatever the instance argument is; a patch without an \<open>owner\<close> is rejected.
\<close>

theorem ValidatorFunc_create:
  assumes "patch_type ev = ''create''"
  shows "ValidatorFunc proto ev author inst =
           (if p_owner (patch_json_patch ev) = Some author then Accept
            else Reject ''author must match new bucket owner'')"
  using assms by (simp add: ValidatorFunc_def Let_def)

theorem ValidatorFunc_create_witness:
  "patch_type ex_create = ''create''
   \<and> ValidatorFunc ES_Object_prototype ex_create ''O'' None = Accept
   \<and> ValidatorFunc ES_Object_prototype ex_create ''N'' None
       = Reject ''author must match new bucket owner''"
proof -
  have h: "patch_type ex_create = ''create''" by (simp add: ex_create_def)
  have ow: "p_owner (patch_json_patch ex_create) = Some ''O''" by (simp add: ex_create_def)
  show ?thesis
    using ValidatorFunc_create [OF h, of ES_Object_prototype "''O''" None]
      ValidatorFunc_create [OF h, of ES_Object_prototype "''N''" None] h ow
    by simp
qed

text \<open>One pass of the loop body returns what the rule for one path rejects with.\<close>

lemma save_item_readable:
  assumes "Items inst \<noteq> None" and "p \<noteq> None"
    and "exists_item inst k \<Longrightarrow> Write (ACL (fst (lookup_Items (Items inst) k))) \<noteq> None"
    and "\<not> exists_item inst k \<Longrightarrow> \<not> proto k"
  shows "save_item proto author (Some inst) k p =
           (if path_verdict author inst k p = Accept then None
            else Some (path_verdict author inst k p))"
  using assms
  by (auto simp: save_item_def path_verdict_def has_acl_def Write_set_def exists_item_def
        lookup_Items_def elems_def split: option.splits)

lemma save_loop_readable:
  assumes "readable proto inst kvs"
  shows "save_loop proto author (Some inst) kvs =
           (case find (\<lambda>(k, p). path_verdict author inst k p \<noteq> Accept) kvs of
              None \<Rightarrow> None
            | Some (k, p) \<Rightarrow> Some (path_verdict author inst k p))"
  using assms
proof (induction kvs)
  case Nil
  then show ?case by simp
next
  case (Cons kv kvs)
  obtain k p where kv: "kv = (k, p)" by (cases kv)
  from Cons.prems kv have items: "Items inst \<noteq> None" and p: "p \<noteq> None"
    and w: "exists_item inst k \<Longrightarrow> Write (ACL (fst (lookup_Items (Items inst) k))) \<noteq> None"
    and n: "\<not> exists_item inst k \<Longrightarrow> \<not> proto k"
    and tl: "readable proto inst kvs"
    by (auto simp: readable_def split: if_splits)
  note IH = Cons.IH [OF tl]
  have step: "save_item proto author (Some inst) k p =
           (if path_verdict author inst k p = Accept then None
            else Some (path_verdict author inst k p))"
    using items p w n by (intro save_item_readable) auto
  show ?case
  proof (cases "path_verdict author inst k p = Accept")
    case True
    with step IH show ?thesis by (simp add: kv)
  next
    case False
    with step show ?thesis by (simp add: kv)
  qed
qed

lemma find_None_all: "(find P xs = None) = (\<forall>x \<in> set xs. \<not> P x)"
  by (induction xs) auto

lemma find_Some_holds: "find P xs = Some x \<Longrightarrow> P x"
  by (induction xs) (auto split: if_splits)

text \<open>
  Claim C1 reads: for a path of a save patch that exists in the instance, the validator
  accepts iff the author is in the item's Write set, or is the owner when the patch
  changes the ACL of the path. The code asks for both: on the bucket whose item \<open>p\<close> is
  writable by \<open>N\<close> alone, a patch that carries an ACL for \<open>p\<close> is rejected from the
  owner \<open>O\<close> (not in the Write set) and from \<open>N\<close> (in the Write set, not the owner).
\<close>

theorem ValidatorFunc_save_counterexample:
  "exists_item ex_shared_bucket ''p'' \<and> has_acl ex_acl_entry
   \<and> Owner ex_shared_bucket = ''O''
   \<and> ValidatorFunc ES_Object_prototype ex_save_acl ''O'' (Some ex_shared_bucket)
       = Reject ''author does not have write access''
   \<and> ''N'' \<in> Write_set ex_shared_bucket ''p''
   \<and> ValidatorFunc ES_Object_prototype ex_save_acl ''N'' (Some ex_shared_bucket)
       = Reject ''only owner can modify bucket access rules''"
  by (simp add: ValidatorFunc_def save_item_def ex_save_acl_def ex_acl_entry_def
        ex_shared_bucket_def ex_bucket_def ex_item_def has_acl_def Write_set_def
        exists_item_def lookup_Items_def elems_def Let_def)

text \<open>
  Claim C1, amended. For every save patch that the validator reads without a TypeError,
  the verdict is that of the first path of the item map, in the order of the loop, that
  the rule for one path does not accept, and the patch is accepted iff the rule accepts
  every path. For a path that already exists in the instance the rule is: first, when the
  patch carries an ACL for the path and the author is not the owner, reject with "only
  owner can modify bucket access rules"; then, accept iff the author is a member of the
  item's existing Write set, and otherwise reject with "author does not have write
  access". So an existing path is accepted iff the author is in the Write set and, when
  the patch carries an ACL for it, is also the owner.
\<close>

theorem ValidatorFunc_save:
  assumes "patch_type ev = ''save''"
    and "p_items (patch_json_patch ev) = Some kvs"
    and "readable proto inst kvs"
  shows "ValidatorFunc proto ev author (Some inst) =
           (case find (\<lambda>(k, p). path_verdict author inst k p \<noteq> Accept) kvs of
              None \<Rightarrow> Accept
            | Some (k, p) \<Rightarrow> path_verdict author inst k p)
       \<and> (ValidatorFunc proto ev author (Some inst) = Accept \<longleftrightarrow>
            (\<forall>(k, p) \<in> set kvs. path_verdict author inst k p = Accept))
       \<and> (\<forall>(k, p) \<in> set kvs. exists_item inst k \<longrightarrow>
            path_verdict author inst k p =
              (if has_acl p \<and> author \<noteq> Owner inst
               then Reject ''only owner can modify bucket access rules''
               else if author \<in> Write_set inst k then Accept
               else Reject ''author does not have write access'')
            \<and> (path_verdict author inst k p = Accept \<longleftrightarrow>
                 author \<in> Write_set inst k \<and> (has_acl p \<longrightarrow> author = Owner inst)))"
proof -
  let ?bad = "\<lambda>(k, p). path_verdict author inst k p \<noteq> Accept"
  have v: "ValidatorFunc proto ev author (Some inst) =
             (case save_loop proto author (Some inst) kvs of Some v \<Rightarrow> v | None \<Rightarrow> Accept)"
    using assms(1,2) by (simp add: ValidatorFunc_def Let_def)
  have first: "ValidatorFunc proto ev author (Some inst) =
           (case find ?bad kvs of
              None \<Rightarrow> Accept
            | Some (k, p) \<Rightarrow> path_verdict author inst k p)"
    unfolding v save_loop_readable [OF assms(3), of author]
    by (simp split: option.splits prod.splits)
  have all: "ValidatorFunc proto ev author (Some inst) = Accept \<longleftrightarrow>
            (\<forall>(k, p) \<in> set kvs. path_verdict author inst k p = Accept)"
  proof (cases "find ?bad kvs")
    case None
    from None first have acc: "ValidatorFunc proto ev author (Some inst) = Accept" by simp
    from None have "\<forall>x \<in> set kvs. \<not> ?bad x" by (simp only: find_None_all)
    then have "\<forall>(k, p) \<in> set kvs. path_verdict author inst k p = Accept" by auto
    with acc show ?thesis by simp
  next
    case (Some kp)
    obtain k p where kp: "kp = (k, p)" by (cases kp)
    from find_Some_holds [OF Some] kp have bad: "path_verdict author inst k p \<noteq> Accept" by simp
    from Some kp have "(k, p) \<in> set kvs" by (auto simp: find_Some_iff in_set_conv_nth)
    with bad Some kp first show ?thesis by auto
  qed
  have one: "\<forall>(k, p) \<in> set kvs. exists_item inst k \<longrightarrow>
            path_verdict author inst k p =
              (if has_acl p \<and> author \<noteq> Owner inst
               then Reject ''only owner can modify bucket access rules''
               else if author \<in> Write_set inst k then Accept
               else Reject ''author does not have write access'')
            \<and> (path_verdict author inst k p = Accept \<longleftrightarrow>
                 author \<in> Write_set inst k \<and> (has_acl p \<longrightarrow> author = Owner inst))"
    by (auto simp: path_verdict_def split: if_splits)
  from first all one show ?thesis by blast
qed

theorem ValidatorFunc_save_witness:
  "patch_type ex_save_cid = ''save''
   \<and> p_items (patch_json_patch ex_save_cid) = Some [(''p'', ex_cid_entry)]
   \<and> readable ES_Object_prototype ex_bucket [(''p'', ex_cid_entry)]
   \<and> exists_item ex_bucket ''p'' \<and> \<not> has_acl ex_cid_entry
   \<and> Write_set ex_bucket ''p'' = {''O'', ''N''}
   \<and> ValidatorFunc ES_Object_prototype ex_save_cid ''N'' (Some ex_bucket) = Accept
   \<and> ValidatorFunc ES_Object_prototype ex_save_cid ''M'' (Some ex_bucket)
       = Reject ''author does not have write access''"
proof -
  have h1: "patch_type ex_save_cid = ''save''" by (simp add: ex_save_cid_def)
  have h2: "p_items (patch_json_patch ex_save_cid) = Some [(''p'', ex_cid_entry)]"
    by (simp add: ex_save_cid_def)
  have e: "exists_item ex_bucket ''p''"
    by (simp add: exists_item_def lookup_Items_def ex_bucket_def)
  have h3: "readable ES_Object_prototype ex_bucket [(''p'', ex_cid_entry)]"
    by (simp add: readable_def exists_item_def lookup_Items_def ex_bucket_def ex_item_def
          ex_cid_entry_def)
  have a: "\<not> has_acl ex_cid_entry" by (simp add: has_acl_def ex_cid_entry_def)
  have ws: "Write_set ex_bucket ''p'' = {''O'', ''N''}"
    by (simp add: Write_set_def lookup_Items_def ex_bucket_def ex_item_def elems_def)
  have pn: "path_verdict ''N'' ex_bucket ''p'' ex_cid_entry = Accept"
    using e a ws by (simp add: path_verdict_def)
  have pm: "path_verdict ''M'' ex_bucket ''p'' ex_cid_entry
              = Reject ''author does not have write access''"
    using e a ws by (simp add: path_verdict_def)
  have n: "ValidatorFunc ES_Object_prototype ex_save_cid ''N'' (Some ex_bucket) = Accept"
    using ValidatorFunc_save [OF h1 h2 h3, of "''N''"] pn by simp
  have m: "ValidatorFunc ES_Object_prototype ex_save_cid ''M'' (Some ex_bucket)
             = Reject ''author does not have write access''"
    using ValidatorFunc_save [OF h1 h2 h3, of "''M''"] pm by simp
  show ?thesis using h1 h2 h3 e a ws n m by blast
qed

text \<open>
  A path named like a member of \<open>Object.prototype\<close> that the instance does not hold is
  read as that member: the validator throws, also for the owner.
\<close>

lemma ValidatorFunc_save_prototype_name:
  "\<not> exists_item ex_bucket ''constructor''
   \<and> \<not> readable ES_Object_prototype ex_bucket [(''constructor'', ex_cid_entry)]
   \<and> ValidatorFunc ES_Object_prototype ex_save_ctor ''O'' (Some ex_bucket) = TypeError"
  by (simp add: ValidatorFunc_def save_item_def ex_save_ctor_def ex_cid_entry_def
        ex_bucket_def ex_item_def readable_def exists_item_def lookup_Items_def
        ES_Object_prototype_def Let_def)

text \<open>
  Claim C5 (a delete patch is accepted iff the author is the owner of the current
  instance) does not hold of the code: case "delete" compares the author with
  \<open>event.patch.owner\<close>, a property of the patch envelope, where case "save" reads
  \<open>instance.owner\<close>. For a delete event without that property, the owner of the example
  bucket is rejected.
\<close>

theorem ValidatorFunc_delete_owner_rejected:
  "Owner ex_bucket = ''O''
   \<and> ValidatorFunc proto ex_delete ''O'' (Some ex_bucket)
       = Reject ''author must match new bucket owner''"
  by (simp add: ValidatorFunc_def ex_delete_def ex_bucket_def Let_def)

text \<open>The verdict on a delete patch does not depend on the instance.\<close>

lemma ValidatorFunc_delete:
  "patch_type ev = ''delete'' \<Longrightarrow>
     ValidatorFunc proto ev author inst =
       (if patch_owner ev = Some author then Accept
        else Reject ''author must match new bucket owner'')"
  by (simp add: ValidatorFunc_def Let_def)

subsection \<open>ArchiveStatus\<close>

lemma ArchiveStatus_read_error:
  "ffsCol_Get b key = Inl err \<Longrightarrow>
     ArchiveStatus ffs_Failed b key
       = (ffs_Failed, [], Some (Errorf_s ''getting ffs instance data: '' (External err)))"
  by (simp add: ArchiveStatus_def)

text \<open>
  Claim C7 reads: for every key, the not-found error iff no current job id is recorded,
  the aborted error iff the current archive is marked aborted, and the status otherwise.
  The job id is tested first: an archive marked aborted with no job id gives the
  not-found error, not the aborted one. And for a key whose metadata cannot be read the
  result is none of the three, but the wrapped error of the read.
\<close>

theorem ArchiveStatus_counterexample:
  "ffsCol_Get ex_Buckets ''k'' = Inr ex_no_job
   \<and> Aborted (FFS_Current (FFS_Archives ex_no_job))
   \<and> ArchiveStatus 3 ex_Buckets ''k'' = (3, [], Some ErrNoCurrentArchive)
   \<and> ffsCol_Get ex_Buckets ''k3'' = Inl ''not found''
   \<and> ArchiveStatus 3 ex_Buckets ''k3''
       = (3, [], Some (Errorf_s ''getting ffs instance data: '' (External ''not found'')))"
  by (simp add: ArchiveStatus_def ex_Buckets_def ex_no_job_def)

text \<open>
  Claim C7, amended. For every key whose instance metadata is read, with \<open>cur\<close> its
  current archive: \<open>ArchiveStatus\<close> returns the not-found error ("no current archive")
  iff no job id is recorded; it returns the aborted error carrying the recorded abort
  message iff a job id is recorded and the archive is marked aborted; it returns no error
  iff a job id is recorded and the archive is not marked aborted, and then it returns the
  job's status and its failure message; with an error it returns \<open>ffs.Failed\<close> and the
  empty message.
\<close>

theorem ArchiveStatus_cases:
  assumes "ffsCol_Get b key = Inr ffsi" and "cur = FFS_Current (FFS_Archives ffsi)"
  shows "(snd (snd (ArchiveStatus ffs_Failed b key)) = Some ErrNoCurrentArchive
            \<longleftrightarrow> JobID cur = [])
       \<and> (snd (snd (ArchiveStatus ffs_Failed b key))
            = Some (Errorf (''job status tracking was aborted: '' @ AbortedMsg cur))
            \<longleftrightarrow> JobID cur \<noteq> [] \<and> Aborted cur)
       \<and> (snd (snd (ArchiveStatus ffs_Failed b key)) = None
            \<longleftrightarrow> JobID cur \<noteq> [] \<and> \<not> Aborted cur)
       \<and> (JobID cur \<noteq> [] \<and> \<not> Aborted cur \<longrightarrow>
            ArchiveStatus ffs_Failed b key = (JobStatus cur, FailureMsg cur, None))
       \<and> (snd (snd (ArchiveStatus ffs_Failed b key)) \<noteq> None \<longrightarrow>
            fst (ArchiveStatus ffs_Failed b key) = ffs_Failed
            \<and> fst (snd (ArchiveStatus ffs_Failed b key)) = [])"
  using assms by (simp add: ArchiveStatus_def Let_def)

theorem ArchiveStatus_cases_witness:
  "ffsCol_Get ex_Buckets ''k2'' = Inr ex_job
   \<and> JobID (FFS_Current (FFS_Archives ex_job)) \<noteq> []
   \<and> \<not> Aborted (FFS_Current (FFS_Archives ex_job))
   \<and> ArchiveStatus 3 ex_Buckets ''k2'' = (5, [], None)"
proof -
  have h: "ffsCol_Get ex_Buckets ''k2'' = Inr ex_job" by (simp add: ex_Buckets_def)
  have j: "JobID (FFS_Current (FFS_Archives ex_job)) \<noteq> []"
    "\<not> Aborted (FFS_Current (FFS_Archives ex_job))"
    "JobStatus (FFS_Current (FFS_Archives ex_job)) = 5"
    "FailureMsg (FFS_Current (FFS_Archives ex_job)) = []"
    by (simp_all add: ex_job_def)
  show ?thesis using ArchiveStatus_cases [OF h refl, of 3] h j by simp
qed

subsection \<open>Provisioning of the FFS instance\<close>

text \<open>
  Claim C10. \<open>createFFSInstance\<close> reads \<open>Balances[0]\<close> of the \<open>Info\<close> reply with no test
  of the length: when the Powergate client is configured and \<open>FFS.Create\<close> and
  \<open>FFS.Info\<close> succeed, the call panics iff the balance list of the reply is empty, so
  it is safe only when the new instance reports at least one balance.
\<close>

theorem createFFSInstance_panics_iff_no_balance:
  assumes "pgClient b = Some pg"
    and "FFS_Create pg = Inr (i, token)"
    and "FFS_Info pg token = Inr info"
  shows "(\<exists>msg. createFFSInstance b bucketKey = Panic msg) \<longleftrightarrow> len (Balances info) = 0"
  using assms
  by (auto simp: createFFSInstance_def index0_def len_def Let_def
      split: option.splits list.splits)

theorem createFFSInstance_panics_witness:
  "pgClient ex_Buckets = Some ex_PowClient
   \<and> FFS_Create ex_PowClient = Inr (''i1'', ''t'')
   \<and> FFS_Info ex_PowClient ''t'' = Inr \<lparr>Balances = Some []\<rparr>
   \<and> len (Balances \<lparr>Balances = Some ([] :: BalanceInfo list)\<rparr>) = 0
   \<and> (\<exists>msg. createFFSInstance ex_Buckets ''k'' = Panic msg)"
proof -
  have h1: "pgClient ex_Buckets = Some ex_PowClient" by (simp add: ex_Buckets_def)
  have h2: "FFS_Create ex_PowClient = Inr (''i1'', ''t'')" by (simp add: ex_PowClient_def)
  have h3: "FFS_Info ex_PowClient ''t'' = Inr \<lparr>Balances = Some []\<rparr>"
    by (simp add: ex_PowClient_def)
  have h4: "len (Balances \<lparr>Balances = Some ([] :: BalanceInfo list)\<rparr>) = 0"
    by (simp add: len_def)
  have "\<exists>msg. createFFSInstance ex_Buckets ''k'' = Panic msg"
    using createFFSInstance_panics_iff_no_balance [OF h1 h2 h3, of "''k''"] h4 by simp
  with h1 h2 h3 h4 show ?thesis by blast
qed

subsection \<open>New\<close>

text \<open>
  Claim C9 reads: with a token present, \<open>New\<close> fails with the "token owner mismatch"
  error iff the subject of the token does not match the owner. Three calls with a defined
  token where the subject and the owner do not match and the mismatch error is not what
  comes back: a token that yields no subject is not compared, and the bucket is created;
  a token whose key cannot be read fails the call with the error of the read; and with a
  subject and a nil owner the call panics at \<open>owner.String()\<close>.
\<close>

theorem New_token_owner_mismatch_counterexample:
  "Defined ex_no_subject_Token \<and> PubKey ex_no_subject_Token = Inr None
   \<and> New ex_plain_Buckets ex_EncodeToString 7 ''k'' ''/ipfs/r'' (Some ''O'')
         [WithNewBucketToken ex_no_subject_Token]
       = Returns (Inr
           \<lparr>Key = ''id1'', Owner = ''O'', Name = [], Version = 1, EncKey = [],
            Path = ''/ipfs/r'', Items = Some Map.empty,
            Archives = \<lparr>Current = \<lparr>Archive_Cid = [], Deals = Some []\<rparr>, History = Some []\<rparr>,
            Bucket_CreatedAt = 7, Bucket_UpdatedAt = 7\<rparr>)
   \<and> Defined ex_unreadable_Token \<and> PubKey ex_unreadable_Token = Inl ''bad token''
   \<and> New ex_plain_Buckets ex_EncodeToString 7 ''k'' ''/ipfs/r'' (Some ''O'')
         [WithNewBucketToken ex_unreadable_Token]
       = Returns (Inl (External ''bad token''))
   \<and> Defined ex_Token \<and> PubKey ex_Token = Inr (Some ''O'')
   \<and> New ex_plain_Buckets ex_EncodeToString 7 ''k'' ''/ipfs/r'' None
         [WithNewBucketToken ex_Token]
       = Panic ''invalid memory address or nil pointer dereference''"
  by (simp add: New_def createFFSInstance_def WithNewBucketToken_def zero_BucketOptions_def
        ex_no_subject_Token_def ex_unreadable_Token_def ex_Token_def ex_plain_Buckets_def
        ex_Buckets_def Version_const_def Let_def)

text \<open>
  Claim C9, amended. Let \<open>tok\<close> be the token that the options set. When the token is
  absent (not defined), no comparison is made and the call never fails with the "token
  owner mismatch" error. When the token is present: if its key cannot be read, the call
  fails with the error of the read; if it yields no subject, no comparison is made and
  the call does not fail with the mismatch error; if it yields a subject and an owner is
  given, the call fails with the "token owner mismatch" error iff the string of the
  subject differs from the string of the owner.
\<close>

theorem New_token_owner_mismatch:
  assumes "opt_Token (foldl (\<lambda>a opt. opt a) zero_BucketOptions opts) = tok"
  shows "(\<not> Defined tok \<longrightarrow>
            New b enc now key pth owner opts
               \<noteq> Returns (Inl (Errorf ''creating bucket: token owner mismatch'')))
       \<and> (Defined tok \<longrightarrow>
            (\<forall>e. PubKey tok = Inl e \<longrightarrow>
                 New b enc now key pth owner opts = Returns (Inl (External e)))
          \<and> (PubKey tok = Inr None \<longrightarrow>
                 New b enc now key pth owner opts
                   \<noteq> Returns (Inl (Errorf ''creating bucket: token owner mismatch'')))
          \<and> (\<forall>t ow. PubKey tok = Inr (Some t) \<and> owner = Some ow \<longrightarrow>
                 (New b enc now key pth owner opts
                    = Returns (Inl (Errorf ''creating bucket: token owner mismatch''))
                  \<longleftrightarrow> ow \<noteq> t)))"
  using assms
  by (auto simp: New_def Let_def split: sum.splits option.splits outcome.splits)

theorem New_token_owner_mismatch_witness:
  "opt_Token (foldl (\<lambda>a opt. opt a) zero_BucketOptions [WithNewBucketToken ex_Token]) = ex_Token
   \<and> Defined ex_Token \<and> PubKey ex_Token = Inr (Some ''O'')
   \<and> New ex_Buckets ex_EncodeToString 7 ''k'' ''/ipfs/r'' (Some ''N'') [WithNewBucketToken ex_Token]
       = Returns (Inl (Errorf ''creating bucket: token owner mismatch''))
   \<and> New ex_Buckets ex_EncodeToString 7 ''k'' ''/ipfs/r'' (Some ''O'') [WithNewBucketToken ex_Token]
       \<noteq> Returns (Inl (Errorf ''creating bucket: token owner mismatch''))"
proof -
  have h: "opt_Token (foldl (\<lambda>a opt. opt a) zero_BucketOptions [WithNewBucketToken ex_Token])
             = ex_Token"
    by (simp add: WithNewBucketToken_def)
  have d: "Defined ex_Token" "PubKey ex_Token = Inr (Some ''O'')"
    by (simp_all add: ex_Token_def)
  have n: "New ex_Buckets ex_EncodeToString 7 ''k'' ''/ipfs/r'' (Some ''N'')
             [WithNewBucketToken ex_Token]
           = Returns (Inl (Errorf ''creating bucket: token owner mismatch''))"
    using New_token_owner_mismatch
            [OF h, of ex_Buckets ex_EncodeToString 7 "''k''" "''/ipfs/r''" "Some ''N''"] d
    by simp
  have o: "New ex_Buckets ex_EncodeToString 7 ''k'' ''/ipfs/r'' (Some ''O'')
             [WithNewBucketToken ex_Token]
           \<noteq> Returns (Inl (Errorf ''creating bucket: token owner mismatch''))"
    using New_token_owner_mismatch
            [OF h, of ex_Buckets ex_EncodeToString 7 "''k''" "''/ipfs/r''" "Some ''O''"] d
    by simp
  from h d n o show ?thesis by blast
qed

text \<open>A subject with a nil owner: the comparison calls \<open>String\<close> on the nil interface.\<close>

lemma New_nil_owner_panics:
  assumes "opt_Token (foldl (\<lambda>a opt. opt a) zero_BucketOptions opts) = tok"
    and "Defined tok" and "PubKey tok = Inr (Some t)"
  shows "New b enc now key pth None opts
           = Panic ''invalid memory address or nil pointer dereference''"
  using assms by (simp add: New_def Let_def)

lemma New_without_archiving:
  assumes "opt_Token (foldl (\<lambda>a opt. opt a) zero_BucketOptions opts) = tok"
    and "\<not> Defined tok" and "pgClient b = None"
    and "Collection_Create b bucket tok = Inr newid"
    and "bucket =
       \<lparr>Key = key, Owner = (case owner of None \<Rightarrow> [] | Some ow \<Rightarrow> ow),
        Name = opt_Name (foldl (\<lambda>a opt. opt a) zero_BucketOptions opts),
        Version = 1,
        EncKey = (case opt_Key (foldl (\<lambda>a opt. opt a) zero_BucketOptions opts) of
                    None \<Rightarrow> [] | Some k \<Rightarrow> enc k),
        Path = pth, Items = Some Map.empty,
        Archives = \<lparr>Current = \<lparr>Archive_Cid = [], Deals = Some []\<rparr>, History = Some []\<rparr>,
        Bucket_CreatedAt = now, Bucket_UpdatedAt = now\<rparr>"
  shows "New b enc now key pth owner opts = Returns (Inr (bucket\<lparr>Key := newid\<rparr>))
       \<and> \<not> IsArchivingEnabled b"
  using assms
  by (cases owner)
     (simp_all add: New_def createFFSInstance_def IsArchivingEnabled_def Version_const_def Let_def)

end
